theory Spec2Isabelle
  imports Complex_Main "HOL-Library.Sublist" "HOL-Library.Multiset"
begin

section \<open>Strings\<close>

text \<open>
  A Python \<^verbatim>\<open>str\<close> is modelled as a \<^typ>\<open>string\<close> whose characters are the code
  points 0 to 255 (Latin-1). On these code points \<^verbatim>\<open>str.lower\<close> works character by
  character: the letters A to Z and the accented capitals U+00C0 to U+00DE (the
  multiplication sign U+00D7 apart) move up by 32, every other character stays.
  \<^verbatim>\<open>str.strip()\<close> removes, at both ends, the characters for which
  \<^verbatim>\<open>str.isspace\<close> holds: U+0009 to U+000D, U+001C to U+0020, U+0085 and U+00A0.
\<close>

definition lower_char :: "char \<Rightarrow> char" where
  "lower_char c =
     (let n = (of_char c :: nat)
      in if (65 \<le> n \<and> n \<le> 90) \<or> (192 \<le> n \<and> n \<le> 222 \<and> n \<noteq> 215)
         then char_of (n + 32) else c)"

definition lower :: "string \<Rightarrow> string" where
  "lower s = map lower_char s"

definition isspace :: "char \<Rightarrow> bool" where
  "isspace c =
     (let n = (of_char c :: nat)
      in (9 \<le> n \<and> n \<le> 13) \<or> (28 \<le> n \<and> n \<le> 32) \<or> n = 133 \<or> n = 160)"

definition strip :: "string \<Rightarrow> string" where
  "strip s = rev (dropWhile isspace (rev (dropWhile isspace s)))"

text \<open>The character class \<^verbatim>\<open>[a-z0-9]\<close> of the regular expression in \<^verbatim>\<open>normalize_title\<close>.\<close>

definition az09 :: "char \<Rightarrow> bool" where
  "az09 c =
     (let n = (of_char c :: nat)
      in (97 \<le> n \<and> n \<le> 122) \<or> (48 \<le> n \<and> n \<le> 57))"

text \<open>
  \<^verbatim>\<open>re.sub(r"[^a-z0-9]+", "", title)\<close>: scanning from the left, a character of the
  class is copied; at any other character the longest run of characters outside the
  class is matched and replaced by the empty string, and the scan goes on after it.
\<close>

function re_sub_non_az09 :: "string \<Rightarrow> string" where
  "re_sub_non_az09 [] = []"
| "re_sub_non_az09 (c # cs) =
     (if az09 c then c # re_sub_non_az09 cs
      else re_sub_non_az09 (dropWhile (\<lambda>d. \<not> az09 d) cs))"
  by pat_completeness auto
termination
  by (relation "measure length") (auto simp: length_dropWhile_le less_Suc_eq_le)

definition normalize_title :: "string \<Rightarrow> string" where
  "normalize_title t = re_sub_non_az09 (lower t)"

section \<open>JSON values\<close>

text \<open>
  What \<^verbatim>\<open>json.loads\<close> returns: \<^verbatim>\<open>None\<close>, a bool, an int, a float (a finite float
  is a rational number; \<^verbatim>\<open>NaN\<close> and the infinities, which \<^verbatim>\<open>json.loads\<close> accepts, are
  \<open>JNonFinite\<close>), a string, a list, or a dict, held as the list of its items.
\<close>

datatype json =
    JNull
  | JBool bool
  | JInt int
  | JFloat rat
  | JNonFinite
  | JStr string
  | JArr "json list"
  | JObj "(string \<times> json) list"

datatype error = RuntimeError | TypeError | ValueError | OverflowError | AttributeError | SMTPError

text \<open>
  The three values \<^verbatim>\<open>p.summary\<close> is given in \<^verbatim>\<open>main\<close>: the object returned by the
  summary call, the two-field placeholder after a failed call, and the eight-field
  placeholder written when no client is in use.
\<close>

datatype summary = LLM_summary json | Failed_placeholder | No_LLM_placeholder

section \<open>Papers\<close>

record paper =
  title :: string
  authors :: "string list"
  journal :: string
  link :: string
  abstract :: string
  published :: int
  source :: string
  source_group :: string
  doi :: "string option"
  keyword_hits :: int
  group_hits :: int
  relevance_score :: "int option"
  relevance_reason :: "string option"
  summary :: "summary option"

text \<open>
  \<^verbatim>\<open>published\<close> is a timezone-aware UTC instant, held as the number of microseconds
  since the epoch: comparing two aware datetimes compares their instants.
\<close>

section \<open>Deduplication\<close>

text \<open>
  The fingerprint expression of \<^verbatim>\<open>dedupe\<close> (and, written out again, of the state
  update in \<^verbatim>\<open>main\<close>). \<^verbatim>\<open>if p.doi\<close> holds for a DOI that is neither
  \<^verbatim>\<open>None\<close> nor the empty string.
\<close>

definition fingerprint :: "paper \<Rightarrow> string" where
  "fingerprint p =
     (case doi p of
        Some d \<Rightarrow> if d \<noteq> [] then ''doi:'' @ strip (lower d)
                  else ''title:'' @ normalize_title (title p)
      | None \<Rightarrow> ''title:'' @ normalize_title (title p))"

text \<open>
  The loop of \<^verbatim>\<open>dedupe\<close>, over the papers still to visit, with the set
  \<^verbatim>\<open>seen\<close> and the list \<^verbatim>\<open>unique\<close> as they stand.
\<close>

fun dedupe_loop :: "string set \<Rightarrow> paper list \<Rightarrow> paper list \<Rightarrow> paper list" where
  "dedupe_loop seen unique [] = unique"
| "dedupe_loop seen unique (p # ps) =
     (let fp = fingerprint p
      in if fp = [] \<or> fp \<in> seen then dedupe_loop seen unique ps
         else dedupe_loop (insert fp seen) (unique @ [p]) ps)"

definition dedupe :: "paper list \<Rightarrow> string list \<Rightarrow> paper list" where
  "dedupe papers sent_ids = dedupe_loop (set sent_ids) [] papers"

section \<open>Time window\<close>

definition filter_by_date :: "paper list \<Rightarrow> int \<Rightarrow> paper list" where
  "filter_by_date papers start = [p \<leftarrow> papers. published p \<ge> start]"

text \<open>
  The persisted state, as \<^verbatim>\<open>load_state\<close> returns it, and the configuration keys
  \<^verbatim>\<open>main\<close> reads. A key read with \<^verbatim>\<open>cfg.get(key, default)\<close> is an option, and
  \<open>get_or\<close> supplies the default of the source.
\<close>

record run_state =
  last_run :: "string option"
  sent_ids :: "string list"

definition initial_state :: run_state where
  "initial_state = \<lparr>last_run = None, sent_ids = []\<rparr>"

record config =
  lookback_hours :: "int option"
  "keywords" :: "string list"
  required_groups :: "string list list"
  min_groups_matched :: "int option"
  exclude_title_prefixes :: "string list"
  exclude_keywords :: "string list"
  min_keyword_hits :: "int option"
  require_llm :: bool
  max_llm_eval :: "int option"
  source_weight :: "string \<Rightarrow> real option"
  min_relevance_score :: "int option"
  max_papers :: "int option"

record args =
  no_email :: bool
  no_llm :: bool
  dry_run :: bool

definition get_or :: "'a option \<Rightarrow> 'a \<Rightarrow> 'a" where
  "get_or v dflt = (case v of Some x \<Rightarrow> x | None \<Rightarrow> dflt)"

text \<open>
  What a run takes from outside the program: the clock, the papers the collectors
  return, whether \<^verbatim>\<open>build_client\<close> finds an API key, the answers of the two LLM calls
  (\<open>None\<close> when the call raises), whether \<^verbatim>\<open>send_email\<close> succeeds, and the library
  functions \<^verbatim>\<open>dateparser.parse(s).astimezone(timezone.utc)\<close> (\<open>None\<close> when it
  raises), \<^verbatim>\<open>datetime.isoformat\<close>, \<^verbatim>\<open>int\<close> on a string (\<open>None\<close> when it raises
  \<^verbatim>\<open>ValueError\<close>) and \<^verbatim>\<open>str\<close> on a JSON value.
\<close>

record env =
  now_utc :: int
  collected :: "paper list"
  api_key_present :: bool
  llm_relevance :: "paper \<Rightarrow> json option"
  llm_summary :: "paper \<Rightarrow> json option"
  send_email_ok :: bool
  parse_date :: "string \<Rightarrow> int option"
  isoformat :: "int \<Rightarrow> string"
  int_of_str :: "string \<Rightarrow> int option"
  str_of_json :: "json \<Rightarrow> string"

text \<open>\<^verbatim>\<open>timedelta(hours=h)\<close> in microseconds.\<close>

definition hours :: "int \<Rightarrow> int" where
  "hours h = h * 3600000000"

definition window_start :: "env \<Rightarrow> config \<Rightarrow> run_state \<Rightarrow> int" where
  "window_start e cfg st =
     (case last_run st of
        Some s \<Rightarrow>
          if s \<noteq> [] then
            (case parse_date e s of
               Some t \<Rightarrow> t
             | None \<Rightarrow> now_utc e - hours (get_or (lookback_hours cfg) 36))
          else now_utc e - hours (get_or (lookback_hours cfg) 36)
      | None \<Rightarrow> now_utc e - hours (get_or (lookback_hours cfg) 36))"

text \<open>Lines 480 and 481 of \<^verbatim>\<open>main\<close>: the list that enters the keyword stages.\<close>

definition candidates :: "env \<Rightarrow> config \<Rightarrow> run_state \<Rightarrow> paper list" where
  "candidates e cfg st =
     (let papers = filter_by_date (collected e) (window_start e cfg st)
      in dedupe papers (sent_ids st))"

section \<open>Keyword stages\<close>

text \<open>\<^verbatim>\<open>needle in hay\<close> on strings: \<open>needle\<close> occurs in \<open>hay\<close> as a contiguous run.\<close>

fun contains :: "string \<Rightarrow> string \<Rightarrow> bool" where
  "contains [] needle = (needle = [])"
| "contains (c # cs) needle = (prefix needle (c # cs) \<or> contains cs needle)"

fun keyword_loop :: "string \<Rightarrow> int \<Rightarrow> string list \<Rightarrow> int" where
  "keyword_loop text_low score [] = score"
| "keyword_loop text_low score (kw # kws) =
     keyword_loop text_low (if contains text_low (lower kw) then score + 1 else score) kws"

definition keyword_score :: "string \<Rightarrow> string list \<Rightarrow> int" where
  "keyword_score text kws = keyword_loop (lower text) 0 kws"

fun group_loop :: "string \<Rightarrow> int \<Rightarrow> string list list \<Rightarrow> int" where
  "group_loop text_low matched [] = matched"
| "group_loop text_low matched (any_list # groups) =
     group_loop text_low
       (if list_ex (\<lambda>kw. contains text_low (lower kw)) any_list then matched + 1 else matched)
       groups"

definition group_score :: "string \<Rightarrow> string list list \<Rightarrow> int" where
  "group_score text groups = (if groups = [] then 0 else group_loop (lower text) 0 groups)"

definition should_exclude_title :: "string \<Rightarrow> string list \<Rightarrow> bool" where
  "should_exclude_title t pfxs =
     (if pfxs = [] then False
      else list_ex (\<lambda>pre. prefix (lower pre) (lower (strip t))) pfxs)"

text \<open>
  One turn of the loop at lines 489 to 498: \<open>None\<close> when the paper is skipped, the
  annotated paper when it is appended to \<^verbatim>\<open>filtered\<close>.
\<close>

definition annotate :: "config \<Rightarrow> paper \<Rightarrow> paper option" where
  "annotate cfg p =
     (if should_exclude_title (title p) (exclude_title_prefixes cfg) then None
      else
        let text = title p @ '' '' @ abstract p;
            p' = p\<lparr>keyword_hits := keyword_score text (keywords cfg),
                   group_hits := group_score text (required_groups cfg)\<rparr>;
            text_low = lower text
        in if exclude_keywords cfg \<noteq> []
              \<and> list_ex (\<lambda>k. contains text_low (lower k)) (exclude_keywords cfg)
           then None else Some p')"

definition keyword_stage :: "config \<Rightarrow> paper list \<Rightarrow> paper list" where
  "keyword_stage cfg papers = List.map_filter (annotate cfg) papers"

text \<open>Lines 501 to 504: the minimum-hit thresholds.\<close>

definition min_hits_stage :: "config \<Rightarrow> paper list \<Rightarrow> paper list" where
  "min_hits_stage cfg papers =
     (let min_hits = get_or (min_keyword_hits cfg) 1;
          papers1 = [p \<leftarrow> papers. keyword_hits p \<ge> min_hits \<or> keywords cfg = []];
          min_groups = get_or (min_groups_matched cfg) 0
      in if min_groups > 0 then [p \<leftarrow> papers1. group_hits p \<ge> min_groups] else papers1)"

definition filtered :: "env \<Rightarrow> config \<Rightarrow> run_state \<Rightarrow> paper list" where
  "filtered e cfg st = min_hits_stage cfg (keyword_stage cfg (candidates e cfg st))"

section \<open>Ranking and selection\<close>

text \<open>
  The slice \<^verbatim>\<open>xs[:n]\<close> for an integer \<open>n\<close>: the first \<open>n\<close> elements, and for a
  negative \<open>n\<close> all but the last \<open>-n\<close>. \<open>py_from\<close> is the rest of the list,
  \<^verbatim>\<open>xs[n:]\<close>. \<open>py_last\<close> is \<^verbatim>\<open>xs[-n:]\<close> for a positive literal \<open>n\<close>: the last
  \<open>n\<close> elements, the whole list when it is shorter.
\<close>

definition py_upto :: "int \<Rightarrow> 'a list \<Rightarrow> 'a list" where
  "py_upto n xs = (if n \<ge> 0 then take (nat n) xs else take (length xs - nat (- n)) xs)"

definition py_from :: "int \<Rightarrow> 'a list \<Rightarrow> 'a list" where
  "py_from n xs = (if n \<ge> 0 then drop (nat n) xs else drop (length xs - nat (- n)) xs)"

definition py_last :: "nat \<Rightarrow> 'a list \<Rightarrow> 'a list" where
  "py_last n xs = drop (length xs - n) xs"

text \<open>
  \<^verbatim>\<open>list.sort(key=..., reverse=True)\<close> is stable: the keys descend and papers with equal
  keys keep their order. That is the stable ascending sort on the negated key.
\<close>

definition sort_by_hits :: "paper list \<Rightarrow> paper list" where
  "sort_by_hits papers = sort_key (\<lambda>p. - keyword_hits p) papers"

text \<open>\<^verbatim>\<open>data.get(key, default)\<close>: only a dict has the method.\<close>

definition dict_get :: "json \<Rightarrow> string \<Rightarrow> json \<Rightarrow> error + json" where
  "dict_get data k dflt =
     (case data of
        JObj items \<Rightarrow> Inr (case map_of items k of Some v \<Rightarrow> v | None \<Rightarrow> dflt)
      | _ \<Rightarrow> Inl AttributeError)"

text \<open>
  \<^verbatim>\<open>int(v)\<close> on a JSON value: a bool counts as 0 or 1, a float is cut towards zero,
  a string is parsed, and \<^verbatim>\<open>None\<close>, a list and a dict raise \<^verbatim>\<open>TypeError\<close>.
\<close>

definition py_int :: "env \<Rightarrow> json \<Rightarrow> error + int" where
  "py_int e v =
     (case v of
        JNull \<Rightarrow> Inl TypeError
      | JBool b \<Rightarrow> Inr (if b then 1 else 0)
      | JInt n \<Rightarrow> Inr n
      | JFloat q \<Rightarrow> Inr (if q \<ge> 0 then \<lfloor>q\<rfloor> else \<lceil>q\<rceil>)
      | JNonFinite \<Rightarrow> Inl OverflowError
      | JStr s \<Rightarrow> (case int_of_str e s of Some n \<Rightarrow> Inr n | None \<Rightarrow> Inl ValueError)
      | JArr _ \<Rightarrow> Inl TypeError
      | JObj _ \<Rightarrow> Inl TypeError)"

text \<open>
  The body of the loop at lines 530 to 536. The two assignments run in order, so an
  exception in the second would leave the score set; any exception leaves the rest of
  the paper as it was.
\<close>

definition relevance_one :: "env \<Rightarrow> paper \<Rightarrow> paper" where
  "relevance_one e p =
     (case llm_relevance e p of
        None \<Rightarrow> p
      | Some data \<Rightarrow>
          (case dict_get data ''score'' (JInt 0) of
             Inl _ \<Rightarrow> p
           | Inr sc \<Rightarrow>
               (case py_int e sc of
                  Inl _ \<Rightarrow> p
                | Inr n \<Rightarrow>
                    let p1 = p\<lparr>relevance_score := Some n\<rparr>
                    in (case dict_get data ''reason'' (JStr []) of
                          Inl _ \<Rightarrow> p1
                        | Inr r \<Rightarrow> p1\<lparr>relevance_reason := Some (str_of_json e r)\<rparr>))))"

text \<open>
  The loop visits the papers of \<^verbatim>\<open>papers[:max_eval]\<close>, which are the same objects as
  in \<^verbatim>\<open>papers\<close>: the first papers are updated and the others stay.
\<close>

definition relevance_stage :: "env \<Rightarrow> config \<Rightarrow> paper list \<Rightarrow> paper list" where
  "relevance_stage e cfg papers =
     (let max_eval = get_or (max_llm_eval cfg) 30
      in map (relevance_one e) (py_upto max_eval papers) @ py_from max_eval papers)"

text \<open>
  \<^verbatim>\<open>final_score\<close>; the sum is taken in the reals, without the rounding of a float
  addition.
\<close>

definition final_score :: "config \<Rightarrow> paper \<Rightarrow> real" where
  "final_score cfg p =
     (let base = (case relevance_score p of Some s \<Rightarrow> s | None \<Rightarrow> keyword_hits p);
          weight = get_or (source_weight cfg (source_group p)) 0
      in real_of_int base + weight)"

text \<open>Lines 546 to 550; \<open>client\<close> tells whether an LLM client is in use.\<close>

definition select_stage :: "bool \<Rightarrow> config \<Rightarrow> paper list \<Rightarrow> paper list" where
  "select_stage client cfg papers =
     (let papers1 = sort_key (\<lambda>p. - final_score cfg p) papers;
          min_llm_score = get_or (min_relevance_score cfg) 0;
          papers2 =
            (if client \<and> min_llm_score > 0
             then [p \<leftarrow> papers1. (case relevance_score p of Some s \<Rightarrow> s | None \<Rightarrow> 0) \<ge> min_llm_score]
             else papers1)
      in py_upto (get_or (max_papers cfg) 10) papers2)"

definition summarize :: "env \<Rightarrow> bool \<Rightarrow> paper \<Rightarrow> paper" where
  "summarize e client p =
     (if client then
        (case llm_summary e p of
           Some data \<Rightarrow> p\<lparr>summary := Some (LLM_summary data)\<rparr>
         | None \<Rightarrow> p\<lparr>summary := Some Failed_placeholder\<rparr>)
      else p\<lparr>summary := Some No_LLM_placeholder\<rparr>)"

definition client_in_use :: "env \<Rightarrow> args \<Rightarrow> bool" where
  "client_in_use e a = (if no_llm a then False else api_key_present e)"

text \<open>Lines 522 to 572, for a non-empty list and once the LLM requirement is met.\<close>

definition selected :: "env \<Rightarrow> args \<Rightarrow> config \<Rightarrow> paper list \<Rightarrow> paper list" where
  "selected e a cfg papers =
     (let papers1 = sort_by_hits papers;
          client = client_in_use e a;
          papers2 = (if client then relevance_stage e cfg papers1 else papers1);
          papers3 = select_stage client cfg papers2
      in map (summarize e client) papers3)"

section \<open>State store and the run\<close>

text \<open>Lines 585 to 591: every fingerprint is appended, then the list is cut.\<close>

definition store :: "string list \<Rightarrow> string list \<Rightarrow> string list" where
  "store old fps = py_last 5000 (old @ fps)"

text \<open>
  What a run does to the outside: the digests it sends (the papers of the digest stand
  for the rendered message) and the states it writes with \<^verbatim>\<open>save_state\<close>, in order,
  together with the exit code or the exception that ends the run.
\<close>

datatype effect = SendEmail "paper list" | SaveState run_state

text \<open>
  The end of both branches of \<^verbatim>\<open>main\<close>: the mail unless \<^verbatim>\<open>--no-email\<close> or
  \<^verbatim>\<open>--dry-run\<close> is given, then the state unless \<^verbatim>\<open>--dry-run\<close> is given. A failing
  \<^verbatim>\<open>send_email\<close> raises before the state is written.
\<close>

definition send_and_save ::
  "env \<Rightarrow> args \<Rightarrow> paper list \<Rightarrow> run_state \<Rightarrow> effect list \<times> (error + int)" where
  "send_and_save e a papers st' =
     (let save = (if \<not> dry_run a then [SaveState st'] else [])
      in if \<not> no_email a \<and> \<not> dry_run a then
           (if send_email_ok e then (SendEmail papers # save, Inr 0)
            else ([], Inl SMTPError))
         else (save, Inr 0))"

definition main :: "env \<Rightarrow> args \<Rightarrow> config \<Rightarrow> run_state \<Rightarrow> effect list \<times> (error + int)" where
  "main e a cfg st =
     (let papers = filtered e cfg st;
          now = isoformat e (now_utc e)
      in if papers = [] then send_and_save e a [] (st\<lparr>last_run := Some now\<rparr>)
         else if require_llm cfg \<and> \<not> client_in_use e a then ([], Inl RuntimeError)
         else
           let papers' = selected e a cfg papers
           in send_and_save e a papers'
                (st\<lparr>sent_ids := store (sent_ids st) (map fingerprint papers'),
                    last_run := Some now\<rparr>))"

text \<open>The state file after a run: the last state written, or the old one.\<close>

fun state_after :: "run_state \<Rightarrow> effect list \<Rightarrow> run_state" where
  "state_after st [] = st"
| "state_after st (SaveState st' # effs) = state_after st' effs"
| "state_after st (SendEmail _ # effs) = state_after st effs"

section \<open>Notions used in the statements\<close>

text \<open>
  A paper at position \<open>i\<close> is a first unsent occurrence when its fingerprint is neither
  among the fingerprints sent by earlier runs nor the fingerprint of an earlier paper
  of the list.
\<close>

definition first_unsent :: "paper list \<Rightarrow> string list \<Rightarrow> nat \<Rightarrow> bool" where
  "first_unsent ps sent i =
     (fingerprint (ps ! i) \<notin> set sent \<and> fingerprint (ps ! i) \<notin> fingerprint ` set (take i ps))"

section \<open>Properties of the deduplicator\<close>

lemma fingerprint_nonempty: "fingerprint p \<noteq> []"
  by (simp add: fingerprint_def split: option.splits)

lemma dedupe_loop_acc: "dedupe_loop seen unique ps = unique @ dedupe_loop seen [] ps"
proof (induction ps arbitrary: seen unique)
  case Nil
  then show ?case by simp
next
  case (Cons p ps)
  show ?case
    using Cons.IH [of seen unique] Cons.IH [of "insert (fingerprint p) seen" "unique @ [p]"]
      Cons.IH [of "insert (fingerprint p) seen" "[p]"]
    by (simp add: Let_def)
qed

lemma dedupe_loop_Cons:
  "dedupe_loop seen [] (p # ps) =
     (if fingerprint p \<in> seen then dedupe_loop seen [] ps
      else p # dedupe_loop (insert (fingerprint p) seen) [] ps)"
  using dedupe_loop_acc [of "insert (fingerprint p) seen" "[p]" ps]
  by (simp add: Let_def fingerprint_nonempty)

lemma dedupe_loop_snoc:
  "dedupe_loop seen [] (ps @ [p]) =
     dedupe_loop seen [] ps @
       (if fingerprint p \<in> seen \<union> fingerprint ` set ps then [] else [p])"
proof (induction ps arbitrary: seen)
  case Nil
  then show ?case by (simp add: Let_def fingerprint_nonempty)
next
  case (Cons q qs)
  show ?case
    using Cons.IH [of seen] Cons.IH [of "insert (fingerprint q) seen"]
    by (auto simp: dedupe_loop_Cons simp del: dedupe_loop.simps)
qed

lemma dedupe_loop_fresh:
  "distinct (map fingerprint (dedupe_loop seen [] ps)) \<and>
   fingerprint ` set (dedupe_loop seen [] ps) \<inter> seen = {}"
proof (induction ps arbitrary: seen)
  case Nil
  then show ?case by simp
next
  case (Cons p ps)
  show ?case
    using Cons.IH [of seen] Cons.IH [of "insert (fingerprint p) seen"]
    by (auto simp: dedupe_loop_Cons simp del: dedupe_loop.simps)
qed

lemma dedupe_loop_fixed:
  "distinct (map fingerprint ps) \<Longrightarrow> fingerprint ` set ps \<inter> seen = {} \<Longrightarrow>
   dedupe_loop seen [] ps = ps"
proof (induction ps arbitrary: seen)
  case Nil
  then show ?case by simp
next
  case (Cons p ps)
  have "dedupe_loop (insert (fingerprint p) seen) [] ps = ps"
    using Cons.prems by (intro Cons.IH) auto
  then show ?case
    using Cons.prems by (auto simp: dedupe_loop_Cons simp del: dedupe_loop.simps)
qed

lemma dedupe_loop_subseq: "subseq (dedupe_loop seen [] ps) ps"
proof (induction ps arbitrary: seen)
  case Nil
  then show ?case by simp
next
  case (Cons p ps)
  show ?case
    using Cons.IH [of seen] Cons.IH [of "insert (fingerprint p) seen"]
    by (auto simp: dedupe_loop_Cons simp del: dedupe_loop.simps)
qed

lemma dedupe_loop_nth:
  "dedupe_loop seen [] ps =
     map (nth ps) [i \<leftarrow> [0..<length ps].
        fingerprint (ps ! i) \<notin> seen \<and> fingerprint (ps ! i) \<notin> fingerprint ` set (take i ps)]"
proof (induction ps rule: rev_induct)
  case Nil
  then show ?case by simp
next
  case (snoc p ps)
  have a: "map (nth (ps @ [p])) [i \<leftarrow> [0..<length ps].
        fingerprint ((ps @ [p]) ! i) \<notin> seen \<and>
        fingerprint ((ps @ [p]) ! i) \<notin> fingerprint ` set (take i (ps @ [p]))]
     = map (nth ps) [i \<leftarrow> [0..<length ps].
        fingerprint (ps ! i) \<notin> seen \<and> fingerprint (ps ! i) \<notin> fingerprint ` set (take i ps)]"
    (is "map ?f (filter ?P ?is) = map ?g (filter ?Q ?is)")
  proof -
    have "filter ?P ?is = filter ?Q ?is"
      by (rule filter_cong) (auto simp: nth_append)
    moreover have "map ?f (filter ?Q ?is) = map ?g (filter ?Q ?is)"
      by (rule map_cong) (auto simp: nth_append)
    ultimately show ?thesis by simp
  qed
  show ?case
    unfolding dedupe_loop_snoc snoc.IH
    using a by (auto simp del: dedupe_loop.simps)
qed

text \<open>
  C10. The deduplicator is idempotent: applied a second time, with the same
  previously-sent fingerprints, to its own output, it returns that output unchanged.
\<close>

theorem dedupe_idempotent: "dedupe (dedupe ps sent) sent = dedupe ps sent"
  unfolding dedupe_def using dedupe_loop_fresh [of "set sent" ps]
  by (intro dedupe_loop_fixed) auto

end
